theory Spec2Isabelle
  imports Main "HOL-Library.Word" "HOL-Library.Sublist"
begin

section \<open>The error layer of cuOmmBaking: src/Util/Exception.h\<close>

text \<open>
  The header declares the class \<open>Exception\<close>, two assertion macros, four functions that
  check the status of a CUDA call, and two call-site macros around them whose expansion
  depends on \<open>NDEBUG\<close>. Everything the code does beyond returning is explicit here: a
  \<open>throw\<close> and \<open>std::terminate\<close> are values of the type \<open>outcome\<close>, the text written to
  \<open>std::cerr\<close> and the device calls a macro issues are fields of the record \<open>world\<close>,
  which every check takes and returns.

  A \<open>string\<close> stands for the characters of a C string before its terminating NUL.
\<close>

subsection \<open>Result codes and status values\<close>

text \<open>
  Modelled from the spec: the enumeration \<open>Result\<close> is declared in
  OptiXToolkit/CuOmmBaking/CuOmmBaking.h, which the header includes and which is not part
  of the sources at hand. The spec gives it exactly one success value and distinct failure
  causes, among them the device failure; the header names \<open>Result::SUCCESS\<close> and
  \<open>Result::ERROR_CUDA\<close>. Its other enumerators are kept apart by a number.
\<close>

datatype Result = SUCCESS | ERROR_CUDA | ERROR_OTHER nat

text \<open>
  \<open>cudaError_t\<close> (runtime API) and \<open>CUresult\<close> (driver API) are the enumerations of the CUDA
  headers; a value is only compared with the success constant, both of which are 0 there,
  and handed to the API's description function.
\<close>

type_synonym cudaError_t = "32 word"
type_synonym CUresult = "32 word"

definition cudaSuccess :: cudaError_t where
  "cudaSuccess = 0"

definition CUDA_SUCCESS :: CUresult where
  "CUDA_SUCCESS = 0"

subsection \<open>class Exception\<close>

text \<open>
  \<open>std::runtime_error\<close> holds the message (\<open>what\<close>); the class adds \<open>m_result\<close>. It declares
  two constructors, both taking a \<open>Result\<close> first and the message second, as a
  \<open>const char*\<close> or as a \<open>const std::string&\<close>. Each initialises \<open>m_result\<close> from its
  argument, so the member's default initialiser (\<open>Result::SUCCESS\<close>) never takes effect.
\<close>

record Exception =
  what :: string
  m_result :: Result

definition Exception_cstr :: "Result \<Rightarrow> string \<Rightarrow> Exception" where
  "Exception_cstr result msg = \<lparr>what = msg, m_result = result\<rparr>"

definition Exception_string :: "Result \<Rightarrow> string \<Rightarrow> Exception" where
  "Exception_string result msg = \<lparr>what = msg, m_result = result\<rparr>"

definition getResult :: "Exception \<Rightarrow> Result" where
  "getResult e = m_result e"

text \<open>
  An expression \<open>Exception( args )\<close> is resolved against the constructors the class
  declares. The arguments the header ever passes are a \<open>Result\<close>, a \<open>const char*\<close> and a
  \<open>std::string\<close>; a list of them that matches no constructor makes the expression
  ill-formed (\<open>None\<close>). The implicit copy and move constructors take an \<open>Exception\<close>, to
  which none of these arguments converts, both declared constructors being explicit.
\<close>

datatype ctor_arg = Arg_Result Result | Arg_cstr string | Arg_string string

fun Exception_construct :: "ctor_arg list \<Rightarrow> Exception option" where
  "Exception_construct [Arg_Result result, Arg_cstr msg] = Some (Exception_cstr result msg)"
| "Exception_construct [Arg_Result result, Arg_string msg] = Some (Exception_string result msg)"
| "Exception_construct _ = None"

text \<open>
  Which constructor a call names is settled when the call is compiled, from the types of
  its arguments alone: the call is viable exactly when the construction above yields an
  \<open>Exception\<close>.
\<close>

datatype arg_type = Type_Result | Type_cstr | Type_string

fun type_of_arg :: "ctor_arg \<Rightarrow> arg_type" where
  "type_of_arg (Arg_Result result) = Type_Result"
| "type_of_arg (Arg_cstr msg) = Type_cstr"
| "type_of_arg (Arg_string msg) = Type_string"

fun Exception_viable :: "arg_type list \<Rightarrow> bool" where
  "Exception_viable [Type_Result, Type_cstr] = True"
| "Exception_viable [Type_Result, Type_string] = True"
| "Exception_viable _ = False"

subsection \<open>Outcomes and the observable world\<close>

text \<open>
  A statement returns, leaves by a thrown \<open>Exception\<close>, or ends the process in
  \<open>std::terminate\<close>. \<open>Ill_formed\<close> is the outcome of a \<open>throw\<close> whose constructor call
  resolves to nothing: the translation unit holding it is rejected, so code around such a
  \<open>throw\<close> is \<open>Ill_formed\<close> too, on every path, also on those that would not reach it.
\<close>

datatype outcome = Returns | Throws Exception | Terminates | Ill_formed

definition throw_Exception :: "ctor_arg list \<Rightarrow> outcome" where
  "throw_Exception args =
     (case Exception_construct args of Some e \<Rightarrow> Throws e | None \<Rightarrow> Ill_formed)"

text \<open>
  A block that holds a \<open>throw Exception( ... )\<close> with arguments of the types \<open>throw_args\<close>,
  and whose execution would end in \<open>run\<close>.
\<close>

definition compiled :: "arg_type list \<Rightarrow> outcome \<Rightarrow> outcome" where
  "compiled throw_args run = (if Exception_viable throw_args then run else Ill_formed)"

datatype device_event = Wrapped_call | Device_synchronize

record world =
  cerr :: string
  device_trace :: "device_event list"

text \<open>Statements in sequence: the second runs only when the first returned.\<close>

fun and_then :: "outcome \<times> world \<Rightarrow> (world \<Rightarrow> outcome \<times> world) \<Rightarrow> outcome \<times> world" where
  "and_then (Returns, w) next_stmt = next_stmt w"
| "and_then (out, w) next_stmt = (out, w)"

text \<open>
  The CUDA entry points the header calls, as the environment answers them.
  \<open>cudaGetErrorString\<close> returns a string for every status value. \<open>cuGetErrorString\<close> stores
  the address of a string, or the null address (\<open>None\<close>) for a status it does not
  recognise; the status it returns itself is ignored by the header. \<open>cudaDeviceSynchronize\<close>
  is the status that call returns at this call site.
\<close>

record device_api =
  cudaGetErrorString :: "cudaError_t \<Rightarrow> string"
  cuGetErrorString :: "CUresult \<Rightarrow> string option"
  cudaDeviceSynchronize :: cudaError_t

text \<open>
  The build: whether \<open>NDEBUG\<close> is defined, and what \<open>__FILE__\<close> expands to inside
  Exception.h itself (the path under which the compiler found the header).
\<close>

record build =
  NDEBUG :: bool
  Exception_h :: string

subsection \<open>Decimal output of a line number\<close>

text \<open>\<open>operator<<\<close> on an integer in the classic locale: decimal digits, no padding.\<close>

fun show_nat :: "nat \<Rightarrow> string" where
  "show_nat n =
     (if n < 10 then [''0123456789'' ! n]
      else show_nat (n div 10) @ [''0123456789'' ! (n mod 10)])"

declare show_nat.simps [simp del]

subsection \<open>Assertions\<close>

text \<open>
  \<open>OMM_ASSERT( cond )\<close> and \<open>OMM_ASSERT_MSG( cond, msg )\<close> at a site in file \<open>file\<close>, line
  \<open>line\<close>, with \<open>cond_text\<close> the text of the condition (\<open>#cond\<close>) and \<open>cond\<close> its value. The
  second component is the content of the local \<open>std::stringstream ss\<close>, \<open>None\<close> when the
  branch that declares it is not entered. Both macros throw \<open>Exception( ss.str().c_str() )\<close>:
  one argument, a \<open>const char*\<close>. The \<open>throw\<close> is part of the expansion whatever the
  condition turns out to be, so both branches are \<open>compiled\<close> against it.
\<close>

definition OMM_ASSERT :: "string \<Rightarrow> nat \<Rightarrow> string \<Rightarrow> bool \<Rightarrow> outcome \<times> string option" where
  "OMM_ASSERT file line cond_text cond =
     (if \<not> cond then
        let ss = file @ '' ('' @ show_nat line @ ''): '' @ cond_text
        in (compiled [Type_cstr] (throw_Exception [Arg_cstr ss]), Some ss)
      else (compiled [Type_cstr] Returns, None))"

definition OMM_ASSERT_MSG :: "string \<Rightarrow> string \<Rightarrow> nat \<Rightarrow> string \<Rightarrow> bool \<Rightarrow> outcome \<times> string option" where
  "OMM_ASSERT_MSG msg file line cond_text cond =
     (if \<not> cond then
        let ss = msg @ '': '' @ file @ '' ('' @ show_nat line @ ''): '' @ cond_text
        in (compiled [Type_cstr] (throw_Exception [Arg_cstr ss]), Some ss)
      else (compiled [Type_cstr] Returns, None))"

subsection \<open>CUDA error-checking\<close>

text \<open>
  \<open>checkCudaError( cudaError_t error, const char* expr, const char* /*file*/,
  unsigned int /*line*/ )\<close>: the last two parameters are unnamed and the message is built
  from \<open>__FILE__\<close> and \<open>__LINE__\<close> where they stand in the header; \<open>__LINE__\<close> stands on line
  110.
\<close>

definition checkCudaError_cudaError ::
    "device_api \<Rightarrow> build \<Rightarrow> cudaError_t \<Rightarrow> string \<Rightarrow> string \<Rightarrow> 32 word \<Rightarrow> world \<Rightarrow> outcome \<times> world" where
  "checkCudaError_cudaError api b error expr file line w =
     (if error \<noteq> cudaSuccess then
        let ss = ''CUDA call ('' @ expr @ '' ) failed with error: '' @ [CHR 0x27]
                 @ cudaGetErrorString api error @ ''' ('' @ Exception_h b @ '':''
                 @ show_nat 110 @ '')'' @ [CHR 0x0A]
        in (throw_Exception [Arg_Result ERROR_CUDA, Arg_cstr ss], w)
      else (Returns, w))"

text \<open>The non-throwing variant for use in destructors (\<open>noexcept\<close>).\<close>

definition checkCudaErrorNoThrow_cudaError ::
    "device_api \<Rightarrow> cudaError_t \<Rightarrow> string \<Rightarrow> string \<Rightarrow> 32 word \<Rightarrow> world \<Rightarrow> outcome \<times> world" where
  "checkCudaErrorNoThrow_cudaError api error expr file line w =
     (if error \<noteq> cudaSuccess then
        (Terminates,
         w\<lparr>cerr := cerr w @ ''CUDA call ('' @ expr @ '' ) failed with error: '' @ [CHR 0x27]
                 @ cudaGetErrorString api error @ ''' ('' @ file @ '':''
                 @ show_nat (unat line) @ '')'' @ [CHR 0x0A]\<rparr>)
      else (Returns, w))"

text \<open>
  The overloads on \<open>CUresult\<close>: \<open>cuGetErrorString( result, &errorStr )\<close> fetches the text and
  \<open>errorStr\<close> is streamed as it comes back. Inserting a null \<open>const char*\<close> leaves the stream
  in a failed state (as libstdc++ does it: \<open>badbit\<close> is set and nothing is written), and a
  failed stream drops every later insertion: the text ends after the opening quote.
\<close>

definition checkCudaError_CUresult ::
    "device_api \<Rightarrow> CUresult \<Rightarrow> string \<Rightarrow> string \<Rightarrow> 32 word \<Rightarrow> world \<Rightarrow> outcome \<times> world" where
  "checkCudaError_CUresult api result expr file line w =
     (if result \<noteq> CUDA_SUCCESS then
        let errorStr = cuGetErrorString api result;
            ss = (case errorStr of
                    Some text \<Rightarrow>
                      ''CUDA call ('' @ expr @ '' ) failed with error: '' @ [CHR 0x27]
                      @ text @ ''' ('' @ file @ '':'' @ show_nat (unat line) @ '')''
                      @ [CHR 0x0A]
                  | None \<Rightarrow>
                      ''CUDA call ('' @ expr @ '' ) failed with error: '' @ [CHR 0x27])
        in (throw_Exception [Arg_Result ERROR_CUDA, Arg_cstr ss], w)
      else (Returns, w))"

definition checkCudaErrorNoThrow_CUresult ::
    "device_api \<Rightarrow> CUresult \<Rightarrow> string \<Rightarrow> string \<Rightarrow> 32 word \<Rightarrow> world \<Rightarrow> outcome \<times> world" where
  "checkCudaErrorNoThrow_CUresult api result expr file line w =
     (if result \<noteq> CUDA_SUCCESS then
        let errorStr = cuGetErrorString api result
        in (Terminates,
            w\<lparr>cerr := cerr w @
                 (case errorStr of
                    Some text \<Rightarrow>
                      ''CUDA call ('' @ expr @ '' ) failed with error: '' @ [CHR 0x27]
                      @ text @ ''' ('' @ file @ '':'' @ show_nat (unat line) @ '')''
                      @ [CHR 0x0A]
                  | None \<Rightarrow>
                      ''CUDA call ('' @ expr @ '' ) failed with error: '' @ [CHR 0x27])\<rparr>)
      else (Returns, w))"

subsection \<open>The call-site macros\<close>

text \<open>
  The macros pass \<open>call\<close> to an overloaded name; the status type of the wrapped call
  selects the overload.
\<close>

datatype device_result = Runtime_status cudaError_t | Driver_status CUresult

fun checkCudaError ::
    "device_api \<Rightarrow> build \<Rightarrow> device_result \<Rightarrow> string \<Rightarrow> string \<Rightarrow> 32 word \<Rightarrow> world \<Rightarrow> outcome \<times> world" where
  "checkCudaError api b (Runtime_status error) expr file line w =
     checkCudaError_cudaError api b error expr file line w"
| "checkCudaError api b (Driver_status result) expr file line w =
     checkCudaError_CUresult api result expr file line w"

fun checkCudaErrorNoThrow ::
    "device_api \<Rightarrow> device_result \<Rightarrow> string \<Rightarrow> string \<Rightarrow> 32 word \<Rightarrow> world \<Rightarrow> outcome \<times> world" where
  "checkCudaErrorNoThrow api (Runtime_status error) expr file line w =
     checkCudaErrorNoThrow_cudaError api error expr file line w"
| "checkCudaErrorNoThrow api (Driver_status result) expr file line w =
     checkCudaErrorNoThrow_CUresult api result expr file line w"

text \<open>
  \<open>OMM_CUDA_CHECK( call )\<close> and \<open>OMM_CUDA_CHECK_NOTHROW( call )\<close> at a site in \<open>file\<close>, line
  \<open>line\<close>: \<open>call\<close> is the status the wrapped call returned, \<open>call_text\<close> its text (\<open>#call\<close>).
  Evaluating the argument issues the wrapped call; without \<open>NDEBUG\<close> a second statement
  calls \<open>cudaDeviceSynchronize()\<close> and hands its status to \<open>checkCudaError\<close>, in both
  macros.
\<close>

definition OMM_CUDA_CHECK ::
    "device_api \<Rightarrow> build \<Rightarrow> device_result \<Rightarrow> string \<Rightarrow> string \<Rightarrow> 32 word \<Rightarrow> world \<Rightarrow> outcome \<times> world" where
  "OMM_CUDA_CHECK api b call call_text file line w =
     (if \<not> NDEBUG b then
        and_then
          (checkCudaError api b call call_text file line
             (w\<lparr>device_trace := device_trace w @ [Wrapped_call]\<rparr>))
          (\<lambda>w'. checkCudaError api b (Runtime_status (cudaDeviceSynchronize api)) call_text file line
             (w'\<lparr>device_trace := device_trace w' @ [Device_synchronize]\<rparr>))
      else
        checkCudaError api b call call_text file line
          (w\<lparr>device_trace := device_trace w @ [Wrapped_call]\<rparr>))"

definition OMM_CUDA_CHECK_NOTHROW ::
    "device_api \<Rightarrow> build \<Rightarrow> device_result \<Rightarrow> string \<Rightarrow> string \<Rightarrow> 32 word \<Rightarrow> world \<Rightarrow> outcome \<times> world" where
  "OMM_CUDA_CHECK_NOTHROW api b call call_text file line w =
     (if \<not> NDEBUG b then
        and_then
          (checkCudaErrorNoThrow api call call_text file line
             (w\<lparr>device_trace := device_trace w @ [Wrapped_call]\<rparr>))
          (\<lambda>w'. checkCudaError api b (Runtime_status (cudaDeviceSynchronize api)) call_text file line
             (w'\<lparr>device_trace := device_trace w' @ [Device_synchronize]\<rparr>))
      else
        checkCudaErrorNoThrow api call call_text file line
          (w\<lparr>device_trace := device_trace w @ [Wrapped_call]\<rparr>))"

subsection \<open>Notions the properties are stated with\<close>

text \<open>The status of a wrapped call is the success sentinel of its API.\<close>

fun succeeded :: "device_result \<Rightarrow> bool" where
  "succeeded (Runtime_status error) = (error = cudaSuccess)"
| "succeeded (Driver_status result) = (result = CUDA_SUCCESS)"

text \<open>
  Concrete inputs for the evaluations below: a device that describes every failure as an
  illegal memory access, except that its driver does not recognise the status 12345, and
  whose synchronisation reports status \<open>sync\<close>; the header found as src/Util/Exception.h;
  and a world in which nothing has happened yet.
\<close>

definition example_api :: "cudaError_t \<Rightarrow> device_api" where
  "example_api sync =
     \<lparr>cudaGetErrorString = (\<lambda>_. ''an illegal memory access was encountered''),
      cuGetErrorString = (\<lambda>result. if result = 12345 then None
                          else Some ''an illegal memory access was encountered''),
      cudaDeviceSynchronize = sync\<rparr>"

definition example_build :: "bool \<Rightarrow> build" where
  "example_build ndebug = \<lparr>NDEBUG = ndebug, Exception_h = ''src/Util/Exception.h''\<rparr>"

definition fresh_world :: world where
  "fresh_world = \<lparr>cerr = [], device_trace = []\<rparr>"

section \<open>Properties\<close>

subsection \<open>Auxiliary facts\<close>

lemma sublist_between: "ys = ps @ xs @ ss \<Longrightarrow> sublist xs ys"
  by (auto simp: sublist_def)

lemma throw_device_failure:
  "throw_Exception [Arg_Result ERROR_CUDA, Arg_cstr msg] = Throws (Exception_cstr ERROR_CUDA msg)"
  by (simp add: throw_Exception_def)

lemma throw_message_only: "throw_Exception [Arg_cstr msg] = Ill_formed"
  by (simp add: throw_Exception_def)

lemma compiled_message_only: "compiled [Type_cstr] run = Ill_formed"
  by (simp add: compiled_def)

lemma Exception_viable_iff:
  "Exception_viable (map type_of_arg args) \<longleftrightarrow> Exception_construct args \<noteq> None"
  by (induction args rule: Exception_construct.induct) simp_all

lemma getResult_Exception_cstr: "getResult (Exception_cstr r m) = r"
  by (simp add: getResult_def Exception_cstr_def)

lemma what_Exception_cstr: "what (Exception_cstr r m) = m"
  by (simp add: Exception_cstr_def)

subsection \<open>The throwing checks on a failed call\<close>

text \<open>
  The overload on \<open>CUresult\<close> throws an \<open>Exception\<close> with \<open>Result::ERROR_CUDA\<close>; for a status
  the driver describes, its message holds the text of the call and the file and line it
  was given.
\<close>

lemma checkCudaError_CUresult_failure:
  assumes "result \<noteq> CUDA_SUCCESS" and described: "cuGetErrorString api result = Some text"
  shows "\<exists>e. checkCudaError_CUresult api result expr file line w = (Throws e, w)
           \<and> getResult e = ERROR_CUDA \<and> sublist expr (what e) \<and> sublist file (what e)
           \<and> sublist (show_nat (unat line)) (what e)"
proof -
  define msg where "msg = ''CUDA call ('' @ expr @ '' ) failed with error: '' @ [CHR 0x27]
                 @ text @ ''' ('' @ file @ '':'' @ show_nat (unat line)
                 @ '')'' @ [CHR 0x0A]"
  have run: "checkCudaError_CUresult api result expr file line w
               = (Throws (Exception_cstr ERROR_CUDA msg), w)"
    using assms by (simp add: checkCudaError_CUresult_def throw_device_failure msg_def)
  have e: "sublist expr msg"
    unfolding msg_def by (rule sublist_appendI)
  have f: "sublist file msg"
    unfolding msg_def
    by (rule sublist_between [where ps = "''CUDA call ('' @ expr @ '' ) failed with error: ''
                 @ [CHR 0x27] @ text @ ''' (''"
          and ss = "'':'' @ show_nat (unat line) @ '')'' @ [CHR 0x0A]"]) simp
  have l: "sublist (show_nat (unat line)) msg"
    unfolding msg_def
    by (rule sublist_between [where ps = "''CUDA call ('' @ expr @ '' ) failed with error: ''
                 @ [CHR 0x27] @ text @ ''' ('' @ file @ '':''"
          and ss = "'')'' @ [CHR 0x0A]"]) simp
  show ?thesis
    using run e f l by (simp add: getResult_Exception_cstr what_Exception_cstr)
qed

text \<open>
  The overload on \<open>cudaError_t\<close> throws with \<open>Result::ERROR_CUDA\<close> too, and its message
  holds the text of the call; the location in it is the header's own, line 110, whatever
  file and line the caller passed.
\<close>

lemma checkCudaError_cudaError_failure:
  assumes "error \<noteq> cudaSuccess"
  shows "checkCudaError_cudaError api b error expr file line w =
           (Throws (Exception_cstr ERROR_CUDA
              (''CUDA call ('' @ expr @ '' ) failed with error: '' @ [CHR 0x27]
                 @ cudaGetErrorString api error @ ''' ('' @ Exception_h b @ '':110)''
                 @ [CHR 0x0A])), w)"
  using assms
  by (simp add: checkCudaError_cudaError_def throw_device_failure show_nat.simps)

text \<open>
  C1. Claimed: on every status other than the success sentinel, each throwing check raises
  an \<open>Exception\<close> whose code is \<open>Result::ERROR_CUDA\<close> and whose message contains the text of
  the call and the file name and line number of the failing call site. The overload on
  \<open>cudaError_t\<close> does not: for the call \<open>computeLaunch(...)\<close> failing with status 700 at
  build.cpp:42 it throws with \<open>ERROR_CUDA\<close> and the text of the call, but the message names
  src/Util/Exception.h:110 and contains neither \<open>build.cpp\<close> nor \<open>42\<close>.
\<close>

theorem checkCudaError_cudaError_reports_header_location:
  "checkCudaError_cudaError (example_api 0) (example_build False) 700 ''computeLaunch(...)''
       ''build.cpp'' 42 fresh_world
     = (Throws \<lparr>what = ''CUDA call (computeLaunch(...) ) failed with error: 'an illegal memory access was encountered' (src/Util/Exception.h:110)'' @ [CHR 0x0A],
                m_result = ERROR_CUDA\<rparr>, fresh_world)
   \<and> \<not> sublist ''build.cpp'' (''CUDA call (computeLaunch(...) ) failed with error: 'an illegal memory access was encountered' (src/Util/Exception.h:110)'' @ [CHR 0x0A])
   \<and> \<not> sublist (show_nat (unat (42 :: 32 word))) (''CUDA call (computeLaunch(...) ) failed with error: 'an illegal memory access was encountered' (src/Util/Exception.h:110)'' @ [CHR 0x0A])"
  by (simp add: checkCudaError_cudaError_def throw_device_failure show_nat.simps example_api_def
      example_build_def cudaSuccess_def Exception_cstr_def sublist_code)

subsection \<open>The checks on a successful call\<close>

text \<open>
  C3. On the success sentinel each of the four checking functions returns and leaves the
  world as it was: no \<open>Exception\<close> is thrown, nothing is written to \<open>std::cerr\<close>, the
  process is not terminated.
\<close>

theorem checks_return_on_success:
  "checkCudaError_cudaError api b cudaSuccess expr file line w = (Returns, w)
   \<and> checkCudaErrorNoThrow_cudaError api cudaSuccess expr file line w = (Returns, w)
   \<and> checkCudaError_CUresult api CUDA_SUCCESS expr file line w = (Returns, w)
   \<and> checkCudaErrorNoThrow_CUresult api CUDA_SUCCESS expr file line w = (Returns, w)"
  by (simp add: checkCudaError_cudaError_def checkCudaErrorNoThrow_cudaError_def
      checkCudaError_CUresult_def checkCudaErrorNoThrow_CUresult_def)

subsection \<open>The non-throwing checks on a failed call\<close>

text \<open>
  The non-throwing overload on \<open>cudaError_t\<close> appends one message to \<open>std::cerr\<close> and
  terminates; the message holds the text of the call and the file and line it was given.
\<close>

lemma checkCudaErrorNoThrow_cudaError_failure:
  assumes "error \<noteq> cudaSuccess"
  shows "\<exists>msg. checkCudaErrorNoThrow_cudaError api error expr file line w
                  = (Terminates, w\<lparr>cerr := cerr w @ msg\<rparr>)
           \<and> sublist expr msg \<and> sublist file msg \<and> sublist (show_nat (unat line)) msg"
proof -
  define msg where "msg = ''CUDA call ('' @ expr @ '' ) failed with error: '' @ [CHR 0x27]
                 @ cudaGetErrorString api error @ ''' ('' @ file @ '':'' @ show_nat (unat line)
                 @ '')'' @ [CHR 0x0A]"
  have run: "checkCudaErrorNoThrow_cudaError api error expr file line w
               = (Terminates, w\<lparr>cerr := cerr w @ msg\<rparr>)"
    using assms by (simp add: checkCudaErrorNoThrow_cudaError_def msg_def)
  have e: "sublist expr msg"
    unfolding msg_def by (rule sublist_appendI)
  have f: "sublist file msg"
    unfolding msg_def
    by (rule sublist_between [where ps = "''CUDA call ('' @ expr @ '' ) failed with error: ''
                 @ [CHR 0x27] @ cudaGetErrorString api error @ ''' (''"
          and ss = "'':'' @ show_nat (unat line) @ '')'' @ [CHR 0x0A]"]) simp
  have l: "sublist (show_nat (unat line)) msg"
    unfolding msg_def
    by (rule sublist_between [where ps = "''CUDA call ('' @ expr @ '' ) failed with error: ''
                 @ [CHR 0x27] @ cudaGetErrorString api error @ ''' ('' @ file @ '':''"
          and ss = "'')'' @ [CHR 0x0A]"]) simp
  show ?thesis
    using run e f l by blast
qed

text \<open>
  So does the overload on \<open>CUresult\<close> for a status the driver describes.
\<close>

lemma checkCudaErrorNoThrow_CUresult_failure:
  assumes "result \<noteq> CUDA_SUCCESS" and described: "cuGetErrorString api result = Some text"
  shows "\<exists>msg. checkCudaErrorNoThrow_CUresult api result expr file line w
                  = (Terminates, w\<lparr>cerr := cerr w @ msg\<rparr>)
           \<and> sublist expr msg \<and> sublist file msg \<and> sublist (show_nat (unat line)) msg"
proof -
  define msg where "msg = ''CUDA call ('' @ expr @ '' ) failed with error: '' @ [CHR 0x27]
                 @ text @ ''' ('' @ file @ '':'' @ show_nat (unat line)
                 @ '')'' @ [CHR 0x0A]"
  have run: "checkCudaErrorNoThrow_CUresult api result expr file line w
               = (Terminates, w\<lparr>cerr := cerr w @ msg\<rparr>)"
    using assms by (simp add: checkCudaErrorNoThrow_CUresult_def msg_def)
  have e: "sublist expr msg"
    unfolding msg_def by (rule sublist_appendI)
  have f: "sublist file msg"
    unfolding msg_def
    by (rule sublist_between [where ps = "''CUDA call ('' @ expr @ '' ) failed with error: ''
                 @ [CHR 0x27] @ text @ ''' (''"
          and ss = "'':'' @ show_nat (unat line) @ '')'' @ [CHR 0x0A]"]) simp
  have l: "sublist (show_nat (unat line)) msg"
    unfolding msg_def
    by (rule sublist_between [where ps = "''CUDA call ('' @ expr @ '' ) failed with error: ''
                 @ [CHR 0x27] @ text @ ''' ('' @ file @ '':''"
          and ss = "'')'' @ [CHR 0x0A]"]) simp
  show ?thesis
    using run e f l by blast
qed

text \<open>
  For a status the driver does not recognise the text on \<open>std::cerr\<close> ends after the opening
  quote, whatever file and line were passed. The process is terminated all the same, and
  nothing is thrown.
\<close>

lemma checkCudaErrorNoThrow_CUresult_unrecognised:
  assumes "result \<noteq> CUDA_SUCCESS" and "cuGetErrorString api result = None"
  shows "checkCudaErrorNoThrow_CUresult api result expr file line w
           = (Terminates,
              w\<lparr>cerr := cerr w @ ''CUDA call ('' @ expr @ '' ) failed with error: ''
                     @ [CHR 0x27]\<rparr>)"
  using assms by (simp add: checkCudaErrorNoThrow_CUresult_def)

lemma checkCudaErrorNoThrow_terminates:
  assumes "\<not> succeeded call"
  shows "fst (checkCudaErrorNoThrow api call expr file line w) = Terminates"
  using assms
  by (cases call)
     (simp_all add: checkCudaErrorNoThrow_cudaError_def checkCudaErrorNoThrow_CUresult_def)

lemma OMM_CUDA_CHECK_NOTHROW_terminates:
  assumes "\<not> succeeded call"
  shows "fst (OMM_CUDA_CHECK_NOTHROW api b call expr file line w) = Terminates"
proof -
  obtain w' where "checkCudaErrorNoThrow api call expr file line
                     (w\<lparr>device_trace := device_trace w @ [Wrapped_call]\<rparr>) = (Terminates, w')"
    using checkCudaErrorNoThrow_terminates [OF assms, of api expr "file" line
        "w\<lparr>device_trace := device_trace w @ [Wrapped_call]\<rparr>"]
    by (metis prod.collapse)
  then show ?thesis
    by (simp add: OMM_CUDA_CHECK_NOTHROW_def)
qed

text \<open>
  C2. Claimed: on every status other than the success sentinel the non-throwing check, on
  \<open>cudaError_t\<close> and on \<open>CUresult\<close>, and \<open>OMM_CUDA_CHECK_NOTHROW\<close> around such a call, never
  throw, terminate the process, and before that write a message containing the text of the
  call, the file name and the line number of the call site. Termination without a throw
  holds throughout, and the message is as claimed on \<open>cudaError_t\<close> and for every \<open>CUresult\<close>
  the driver describes (the lemmas above). The overload on \<open>CUresult\<close> streams the pointer
  \<open>cuGetErrorString\<close> left behind without looking at the status it returned: for the
  unrecognised status 12345 from \<open>cuCtxDestroy( m_ctx )\<close> at pool.cpp:31 the text on
  \<open>std::cerr\<close> ends after the opening quote and contains neither \<open>pool.cpp\<close> nor \<open>31\<close>, in
  the function and in the macro, with and without \<open>NDEBUG\<close>.
\<close>

theorem checkCudaErrorNoThrow_CUresult_drops_call_site:
  "checkCudaErrorNoThrow_CUresult (example_api 0) 12345 ''cuCtxDestroy( m_ctx )''
       ''pool.cpp'' 31 fresh_world
     = (Terminates,
        fresh_world\<lparr>cerr := ''CUDA call (cuCtxDestroy( m_ctx ) ) failed with error: ''
                         @ [CHR 0x27]\<rparr>)
   \<and> OMM_CUDA_CHECK_NOTHROW (example_api 0) (example_build False) (Driver_status 12345)
       ''cuCtxDestroy( m_ctx )'' ''pool.cpp'' 31 fresh_world
     = (Terminates,
        fresh_world\<lparr>cerr := ''CUDA call (cuCtxDestroy( m_ctx ) ) failed with error: ''
                         @ [CHR 0x27],
                     device_trace := [Wrapped_call]\<rparr>)
   \<and> OMM_CUDA_CHECK_NOTHROW (example_api 0) (example_build True) (Driver_status 12345)
       ''cuCtxDestroy( m_ctx )'' ''pool.cpp'' 31 fresh_world
     = (Terminates,
        fresh_world\<lparr>cerr := ''CUDA call (cuCtxDestroy( m_ctx ) ) failed with error: ''
                         @ [CHR 0x27],
                     device_trace := [Wrapped_call]\<rparr>)
   \<and> \<not> sublist ''pool.cpp''
         (''CUDA call (cuCtxDestroy( m_ctx ) ) failed with error: '' @ [CHR 0x27])
   \<and> \<not> sublist (show_nat (unat (31 :: 32 word)))
         (''CUDA call (cuCtxDestroy( m_ctx ) ) failed with error: '' @ [CHR 0x27])"
  by (simp add: checkCudaErrorNoThrow_CUresult_def OMM_CUDA_CHECK_NOTHROW_def example_api_def
      example_build_def fresh_world_def CUDA_SUCCESS_def show_nat.simps sublist_code)

subsection \<open>The synchronisation of the debug build\<close>

text \<open>
  The dispatching checks: a successful status returns and changes nothing, a failed one
  makes the throwing check throw with \<open>Result::ERROR_CUDA\<close> and an unchanged world.
\<close>

lemma checkCudaError_on_success:
  assumes "succeeded call"
  shows "checkCudaError api b call expr file line w = (Returns, w)"
  using assms
  by (cases call)
     (simp_all add: checkCudaError_cudaError_def checkCudaError_CUresult_def)

lemma checkCudaErrorNoThrow_on_success:
  assumes "succeeded call"
  shows "checkCudaErrorNoThrow api call expr file line w = (Returns, w)"
  using assms
  by (cases call)
     (simp_all add: checkCudaErrorNoThrow_cudaError_def checkCudaErrorNoThrow_CUresult_def)

lemma checkCudaError_on_failure:
  assumes "\<not> succeeded call"
  shows "\<exists>e. checkCudaError api b call expr file line w = (Throws e, w)
           \<and> getResult e = ERROR_CUDA"
proof (cases call)
  case (Runtime_status error)
  with assms show ?thesis
    by (simp add: checkCudaError_cudaError_def throw_device_failure getResult_Exception_cstr)
next
  case (Driver_status result)
  with assms show ?thesis
    by (simp add: checkCudaError_CUresult_def throw_device_failure getResult_Exception_cstr)
qed

text \<open>
  C4, as amended. Without \<open>NDEBUG\<close>, a call checked through \<open>OMM_CUDA_CHECK\<close> whose status is
  the success sentinel is followed at once by \<open>cudaDeviceSynchronize()\<close>, and the status
  of that call is checked by the throwing \<open>checkCudaError\<close> with the same call text, file
  and line; a call whose status is a failure makes the first check throw, and no
  synchronisation is issued. With \<open>NDEBUG\<close> the macro is the single check and never
  synchronises.
\<close>

theorem OMM_CUDA_CHECK_synchronizes_after_success:
  "(\<not> NDEBUG b \<and> succeeded call \<longrightarrow>
      OMM_CUDA_CHECK api b call expr file line w
        = checkCudaError_cudaError api b (cudaDeviceSynchronize api) expr file line
            (w\<lparr>device_trace := device_trace w @ [Wrapped_call, Device_synchronize]\<rparr>))
   \<and> (\<not> NDEBUG b \<and> \<not> succeeded call \<longrightarrow>
      (\<exists>e. OMM_CUDA_CHECK api b call expr file line w
              = (Throws e, w\<lparr>device_trace := device_trace w @ [Wrapped_call]\<rparr>)))
   \<and> (NDEBUG b \<longrightarrow>
      OMM_CUDA_CHECK api b call expr file line w
        = checkCudaError api b call expr file line
            (w\<lparr>device_trace := device_trace w @ [Wrapped_call]\<rparr>)
      \<and> device_trace (snd (OMM_CUDA_CHECK api b call expr file line w))
          = device_trace w @ [Wrapped_call])"
proof (intro conjI impI)
  assume "\<not> NDEBUG b \<and> succeeded call"
  then show "OMM_CUDA_CHECK api b call expr file line w
        = checkCudaError_cudaError api b (cudaDeviceSynchronize api) expr file line
            (w\<lparr>device_trace := device_trace w @ [Wrapped_call, Device_synchronize]\<rparr>)"
    by (simp add: OMM_CUDA_CHECK_def checkCudaError_on_success)
next
  assume a: "\<not> NDEBUG b \<and> \<not> succeeded call"
  then obtain e where "checkCudaError api b call expr file line
                         (w\<lparr>device_trace := device_trace w @ [Wrapped_call]\<rparr>)
                       = (Throws e, w\<lparr>device_trace := device_trace w @ [Wrapped_call]\<rparr>)"
    using checkCudaError_on_failure [of call api b expr "file" line
        "w\<lparr>device_trace := device_trace w @ [Wrapped_call]\<rparr>"]
    by auto
  with a show "\<exists>e. OMM_CUDA_CHECK api b call expr file line w
              = (Throws e, w\<lparr>device_trace := device_trace w @ [Wrapped_call]\<rparr>)"
    by (simp add: OMM_CUDA_CHECK_def)
next
  assume "NDEBUG b"
  then show "OMM_CUDA_CHECK api b call expr file line w
        = checkCudaError api b call expr file line
            (w\<lparr>device_trace := device_trace w @ [Wrapped_call]\<rparr>)"
    by (simp add: OMM_CUDA_CHECK_def)
next
  assume n: "NDEBUG b"
  show "device_trace (snd (OMM_CUDA_CHECK api b call expr file line w))
          = device_trace w @ [Wrapped_call]"
  proof (cases "succeeded call")
    case True
    with n show ?thesis
      by (simp add: OMM_CUDA_CHECK_def checkCudaError_on_success)
  next
    case False
    then obtain e where "checkCudaError api b call expr file line
                         (w\<lparr>device_trace := device_trace w @ [Wrapped_call]\<rparr>)
                       = (Throws e, w\<lparr>device_trace := device_trace w @ [Wrapped_call]\<rparr>)"
      using checkCudaError_on_failure [of call api b expr "file" line
          "w\<lparr>device_trace := device_trace w @ [Wrapped_call]\<rparr>"]
      by auto
    with n show ?thesis
      by (simp add: OMM_CUDA_CHECK_def)
  qed
qed

text \<open>The three cases at concrete inputs: the hypotheses of each can be met.\<close>

theorem OMM_CUDA_CHECK_synchronizes_after_success_witness:
  "\<not> NDEBUG (example_build False) \<and> NDEBUG (example_build True)
   \<and> succeeded (Driver_status 0) \<and> \<not> succeeded (Driver_status 201)
   \<and> OMM_CUDA_CHECK (example_api 0) (example_build False) (Driver_status 0)
        ''cuMemAlloc( &p, n )'' ''build.cpp'' 42 fresh_world
       = checkCudaError_cudaError (example_api 0) (example_build False)
           (cudaDeviceSynchronize (example_api 0)) ''cuMemAlloc( &p, n )'' ''build.cpp'' 42
           (fresh_world\<lparr>device_trace :=
              device_trace fresh_world @ [Wrapped_call, Device_synchronize]\<rparr>)
   \<and> (\<exists>e. OMM_CUDA_CHECK (example_api 0) (example_build False) (Driver_status 201)
             ''cuMemAlloc( &p, n )'' ''build.cpp'' 42 fresh_world
            = (Throws e, fresh_world\<lparr>device_trace :=
                           device_trace fresh_world @ [Wrapped_call]\<rparr>))
   \<and> device_trace (snd (OMM_CUDA_CHECK (example_api 0) (example_build True) (Driver_status 0)
        ''cuMemAlloc( &p, n )'' ''build.cpp'' 42 fresh_world))
       = device_trace fresh_world @ [Wrapped_call]"
proof -
  have h1: "\<not> NDEBUG (example_build False)" and h2: "NDEBUG (example_build True)"
    by (simp_all add: example_build_def)
  have h3: "succeeded (Driver_status 0)" and h4: "\<not> succeeded (Driver_status 201)"
    by (simp_all add: CUDA_SUCCESS_def)
  show ?thesis
    using h1 h2 h3 h4
      OMM_CUDA_CHECK_synchronizes_after_success [of "example_build False" "Driver_status 0"
        "example_api 0" "''cuMemAlloc( &p, n )''" "''build.cpp''" 42 fresh_world]
      OMM_CUDA_CHECK_synchronizes_after_success [of "example_build False" "Driver_status 201"
        "example_api 0" "''cuMemAlloc( &p, n )''" "''build.cpp''" 42 fresh_world]
      OMM_CUDA_CHECK_synchronizes_after_success [of "example_build True" "Driver_status 0"
        "example_api 0" "''cuMemAlloc( &p, n )''" "''build.cpp''" 42 fresh_world]
    by blast
qed

text \<open>
  C4 as claimed says every call checked through \<open>OMM_CUDA_CHECK\<close> in a debug build is
  followed by a synchronisation. A driver call failing with status 201 at build.cpp:42 is
  not: the check throws, and the wrapped call is the only device call issued.
\<close>

theorem OMM_CUDA_CHECK_failed_call_not_synchronized:
  "fst (OMM_CUDA_CHECK (example_api 0) (example_build False) (Driver_status 201)
          ''cuMemAlloc( &p, n )'' ''build.cpp'' 42 fresh_world)
     = Throws \<lparr>what = ''CUDA call (cuMemAlloc( &p, n ) ) failed with error: 'an illegal memory access was encountered' (build.cpp:42)'' @ [CHR 0x0A],
               m_result = ERROR_CUDA\<rparr>
   \<and> device_trace (snd (OMM_CUDA_CHECK (example_api 0) (example_build False) (Driver_status 201)
          ''cuMemAlloc( &p, n )'' ''build.cpp'' 42 fresh_world))
     = [Wrapped_call]"
  by (simp add: OMM_CUDA_CHECK_def checkCudaError_CUresult_def throw_device_failure
      Exception_cstr_def show_nat.simps example_api_def example_build_def fresh_world_def
      CUDA_SUCCESS_def)

text \<open>
  C10. Without \<open>NDEBUG\<close>, \<open>OMM_CUDA_CHECK_NOTHROW\<close> hands the status of its
  \<open>cudaDeviceSynchronize()\<close> call to the throwing \<open>checkCudaError\<close>, not to the non-throwing
  variant: when the wrapped call succeeded and the synchronisation fails, the macro throws
  an \<open>Exception\<close> with \<open>Result::ERROR_CUDA\<close> and does not terminate the process.
\<close>

theorem OMM_CUDA_CHECK_NOTHROW_debug_sync_throws:
  assumes "\<not> NDEBUG b" and "succeeded call" and "cudaDeviceSynchronize api \<noteq> cudaSuccess"
  shows "OMM_CUDA_CHECK_NOTHROW api b call expr file line w
           = checkCudaError_cudaError api b (cudaDeviceSynchronize api) expr file line
               (w\<lparr>device_trace := device_trace w @ [Wrapped_call, Device_synchronize]\<rparr>)
         \<and> (\<exists>e. fst (OMM_CUDA_CHECK_NOTHROW api b call expr file line w) = Throws e
                \<and> getResult e = ERROR_CUDA)
         \<and> fst (OMM_CUDA_CHECK_NOTHROW api b call expr file line w) \<noteq> Terminates"
proof -
  have run: "OMM_CUDA_CHECK_NOTHROW api b call expr file line w
           = checkCudaError_cudaError api b (cudaDeviceSynchronize api) expr file line
               (w\<lparr>device_trace := device_trace w @ [Wrapped_call, Device_synchronize]\<rparr>)"
    using assms(1,2) by (simp add: OMM_CUDA_CHECK_NOTHROW_def checkCudaErrorNoThrow_on_success)
  obtain e where thrown: "checkCudaError_cudaError api b (cudaDeviceSynchronize api) expr file line
               (w\<lparr>device_trace := device_trace w @ [Wrapped_call, Device_synchronize]\<rparr>)
             = (Throws e, w\<lparr>device_trace := device_trace w @ [Wrapped_call, Device_synchronize]\<rparr>)"
      and code: "getResult e = ERROR_CUDA"
    using assms(3)
    by (simp add: checkCudaError_cudaError_def throw_device_failure getResult_Exception_cstr)
  from run thrown code show ?thesis by simp
qed

theorem OMM_CUDA_CHECK_NOTHROW_debug_sync_throws_witness:
  "\<not> NDEBUG (example_build False) \<and> succeeded (Runtime_status 0)
   \<and> cudaDeviceSynchronize (example_api 700) \<noteq> cudaSuccess
   \<and> (\<exists>e. fst (OMM_CUDA_CHECK_NOTHROW (example_api 700) (example_build False)
                 (Runtime_status 0) ''cudaFree( m_ptr )'' ''pool.cpp'' 31 fresh_world) = Throws e
          \<and> getResult e = ERROR_CUDA)
   \<and> fst (OMM_CUDA_CHECK_NOTHROW (example_api 700) (example_build False)
            (Runtime_status 0) ''cudaFree( m_ptr )'' ''pool.cpp'' 31 fresh_world) \<noteq> Terminates"
proof -
  have h1: "\<not> NDEBUG (example_build False)" by (simp add: example_build_def)
  have h2: "succeeded (Runtime_status 0)" by (simp add: cudaSuccess_def)
  have h3: "cudaDeviceSynchronize (example_api 700) \<noteq> cudaSuccess"
    by (simp add: example_api_def cudaSuccess_def)
  show ?thesis
    using h1 h2 h3
      OMM_CUDA_CHECK_NOTHROW_debug_sync_throws [OF h1 h2 h3, of "''cudaFree( m_ptr )''"
        "''pool.cpp''" 31 fresh_world]
    by blast
qed

subsection \<open>The assertion macros\<close>

text \<open>
  C5. Claimed: the \<open>Exception\<close> raised by a failed \<open>OMM_ASSERT\<close> or \<open>OMM_ASSERT_MSG\<close> carries
  \<open>Result::SUCCESS\<close>, the default of \<open>m_result\<close>, where one raised by a device check carries
  \<open>Result::ERROR_CUDA\<close>. The macros pass the message alone, and the class declares no
  constructor that takes a message alone: the constructor call resolves to nothing, so a
  failed assertion raises no \<open>Exception\<close> at all, with \<open>SUCCESS\<close> or otherwise.
\<close>

theorem assertion_throw_has_no_constructor:
  "Exception_construct [Arg_cstr ''bake.cpp (120): numTextures > 0''] = None
   \<and> fst (OMM_ASSERT ''bake.cpp'' 120 ''numTextures > 0'' False) = Ill_formed
   \<and> fst (OMM_ASSERT_MSG ''no textures'' ''bake.cpp'' 120 ''numTextures > 0'' False) = Ill_formed"
  by (simp add: OMM_ASSERT_def OMM_ASSERT_MSG_def compiled_message_only)

text \<open>
  C6. Claimed: a failed \<open>OMM_ASSERT\<close> raises an \<open>Exception\<close> whose message is exactly
  \<open><file> (<line>): <condition text>\<close>, for \<open>ptr != null\<close> failing at setup.cpp:10 the
  message \<open>setup.cpp (10): ptr != null\<close>. The macro builds exactly that text in its string
  stream; the \<open>throw\<close> that should carry it has no constructor to call.
\<close>

theorem OMM_ASSERT_setup_cpp:
  "OMM_ASSERT ''setup.cpp'' 10 ''ptr != null'' False
     = (Ill_formed, Some ''setup.cpp (10): ptr != null'')"
  by (simp add: OMM_ASSERT_def compiled_message_only show_nat.simps)

text \<open>
  C7. Claimed: a failed \<open>OMM_ASSERT_MSG\<close> raises an \<open>Exception\<close> whose message is the
  caller's message, then \<open>: \<close>, then file, line and condition as in the plain assertion;
  with the message \<open>invalid size\<close> at line 77 it begins \<open>invalid size: \<close>. The macro builds
  exactly that text in its string stream; the \<open>throw\<close> that should carry it has no
  constructor to call.
\<close>

theorem OMM_ASSERT_MSG_invalid_size:
  "OMM_ASSERT_MSG ''invalid size'' ''setup.cpp'' 77 ''size > 0'' False
     = (Ill_formed, Some ''invalid size: setup.cpp (77): size > 0'')"
  by (simp add: OMM_ASSERT_MSG_def compiled_message_only show_nat.simps)


subsection \<open>Reading the result code\<close>

text \<open>
  C9. An \<open>Exception\<close> constructed from a result code and a message, by either constructor,
  yields that code at every read of \<open>getResult\<close>: two reads give the same value, the one
  it was constructed with.
\<close>

theorem getResult_reads_constructed_code:
  "(getResult (Exception_cstr r m), getResult (Exception_cstr r m)) = (r, r)
   \<and> (getResult (Exception_string r m), getResult (Exception_string r m)) = (r, r)"
  by (simp add: getResult_def Exception_cstr_def Exception_string_def)

end
